theory Spec2Isabelle
  imports Main
begin

section \<open>C++ types and objects\<close>

text \<open>
  The header \<^verbatim>\<open>boost/hana/fwd/type.hpp\<close> is compile-time code: every one of its
  function bodies computes a C++ type from the types of its arguments and returns
  an object of that type. The embedding therefore has C++ types as data.

  A template taken as a template template parameter (\<^verbatim>\<open>template <typename ...> class f\<close>)
  is referred to by its name. The classes the header itself declares each get a
  constructor of their own, named after the struct:
  \<^item> \<open>type_t T\<close> is \<^verbatim>\<open>_type<T>::_\<close>, \<open>decltype_t\<close> is \<^verbatim>\<open>_decltype\<close>,
  \<^item> \<open>template_t f\<close> is \<^verbatim>\<open>_template<f>\<close> and \<open>template_apply_t f xs\<close> its
    nested struct \<^verbatim>\<open>_template<f>::apply<xs...>\<close>,
  \<^item> \<open>metafunction_t f\<close> is \<^verbatim>\<open>_metafunction<f>\<close>,
    \<open>metafunction_class_t F\<close> is \<^verbatim>\<open>_metafunction_class<F>\<close>,
  \<^item> \<open>trait_t f\<close> is \<^verbatim>\<open>_trait<f>\<close> and \<open>trait_t' f\<close> is \<^verbatim>\<open>_trait_<f>\<close>.

  \<open>Class f xs\<close> is the class \<^verbatim>\<open>f<xs...>\<close> of a class template that the including
  program declares (a class that is no template has no arguments).
\<close>

type_synonym tname = string

datatype ctype =
    CVoid
  | CBool
  | CChar
  | CInt
  | CDouble
  | Pointer ctype
  | LRef ctype
  | RRef ctype
  | Class tname "ctype list"
  | type_t ctype
  | decltype_t
  | template_t tname
  | template_apply_t tname "ctype list"
  | metafunction_t tname
  | metafunction_class_t ctype
  | trait_t tname
  | trait_t' tname

text \<open>
  An object has a type and a state (the run-time content of its members). The
  classes of the header are empty: their objects are written with state \<open>0\<close>.
\<close>

datatype cvalue = Obj (ctype_of: ctype) (state_of: int)

text \<open>
  An expression denotes an object and has a value category. \<open>decltype_expr\<close> is
  \<^verbatim>\<open>decltype(e)\<close> for an expression \<open>e\<close> that is not a plain name: a reference
  type for an lvalue or an xvalue, the object type for a prvalue.
\<close>

datatype category = Lvalue | Xvalue | Prvalue

record expr =
  category :: category
  object :: cvalue

definition decltype_expr :: "expr \<Rightarrow> ctype" where
  "decltype_expr e =
     (case category e of
        Lvalue \<Rightarrow> LRef (ctype_of (object e))
      | Xvalue \<Rightarrow> RRef (ctype_of (object e))
      | Prvalue \<Rightarrow> ctype_of (object e))"

section \<open>The including program\<close>

text \<open>
  What the header is instantiated with comes from the program that includes it:
  \<^item> \<open>template_id P f xs\<close> is the type that \<^verbatim>\<open>f<xs...>\<close> names (the class
    \<open>Class f xs\<close> for a class template, the aliased type for an alias template),
    \<open>None\<close> when \<^verbatim>\<open>f<xs...>\<close> is ill-formed;
  \<^item> \<open>member_type P C\<close> is \<^verbatim>\<open>typename C::type\<close> for a class \<open>C\<close> of the program;
  \<^item> \<open>member_apply P C xs\<close> is \<^verbatim>\<open>typename C::template apply<xs...>\<close>;
  \<^item> \<open>default_init P C\<close> is the state of the object \<^verbatim>\<open>C{}\<close>;
  \<^item> \<open>static_value P C\<close> is the constant \<^verbatim>\<open>C::value\<close> (\<open>true\<close> is 1, \<open>false\<close> is 0).
  Each is \<open>None\<close> where the program does not compile.
\<close>

record program =
  template_id :: "tname \<Rightarrow> ctype list \<Rightarrow> ctype option"
  member_type :: "ctype \<Rightarrow> ctype option"
  member_apply :: "ctype \<Rightarrow> ctype list \<Rightarrow> ctype option"
  default_init :: "ctype \<Rightarrow> int option"
  static_value :: "ctype \<Rightarrow> int option"

section \<open>Nested lookups\<close>

text \<open>
  \<open>nested_type P T\<close> is \<^verbatim>\<open>typename T::type\<close>:
  \<^verbatim>\<open>_type<T>::_\<close> has \<^verbatim>\<open>using type = T;\<close>, and
  \<^verbatim>\<open>_template<f>::apply<xs...>\<close> has \<^verbatim>\<open>using type = f<xs...>;\<close>.
  The other classes of the header have no such member, nor has a scalar, a pointer
  or a reference.
\<close>

fun nested_type :: "program \<Rightarrow> ctype \<Rightarrow> ctype option" where
  "nested_type P (type_t T) = Some T"
| "nested_type P (template_apply_t f xs) = template_id P f xs"
| "nested_type P (Class f xs) = member_type P (Class f xs)"
| "nested_type P _ = None"

text \<open>
  \<open>nested_apply P F xs\<close> is \<^verbatim>\<open>typename F::template apply<xs...>\<close>:
  a nested struct in \<^verbatim>\<open>_template<f>\<close>, the alias
  \<^verbatim>\<open>using apply = f<xs...>;\<close> in \<^verbatim>\<open>_metafunction<f>\<close> and the alias
  \<^verbatim>\<open>using apply = typename f::template apply<xs...>;\<close> in
  \<^verbatim>\<open>_metafunction_class<f>\<close>.
\<close>

fun nested_apply :: "program \<Rightarrow> ctype \<Rightarrow> ctype list \<Rightarrow> ctype option" where
  "nested_apply P (template_t f) xs = Some (template_apply_t f xs)"
| "nested_apply P (metafunction_t f) xs = template_id P f xs"
| "nested_apply P (metafunction_class_t F) xs = nested_apply P F xs"
| "nested_apply P (Class f ys) xs = member_apply P (Class f ys) xs"
| "nested_apply P _ xs = None"

text \<open>
  The data type tags: \<^verbatim>\<open>struct hana { using datatype = Type; }\<close> in
  \<^verbatim>\<open>_type<T>::_\<close>, and \<^verbatim>\<open>using datatype = Metafunction;\<close> in the three
  metafunction lifters. \<^verbatim>\<open>_trait\<close>, \<^verbatim>\<open>_trait_\<close> and \<^verbatim>\<open>_decltype\<close> declare none.
\<close>

datatype tag = Type | Metafunction

fun datatype_of :: "ctype \<Rightarrow> tag option" where
  "datatype_of (type_t T) = Some Type"
| "datatype_of (template_t f) = Some Metafunction"
| "datatype_of (metafunction_t f) = Some Metafunction"
| "datatype_of (metafunction_class_t F) = Some Metafunction"
| "datatype_of _ = None"

section \<open>Objects of the header\<close>

text \<open>
  \<^verbatim>\<open>template <typename T> constexpr typename _type<T>::_ type{};\<close> and the other
  variable templates. \<open>decltype'\<close>, \<open>template'\<close> and \<open>trait'\<close> are the header's
  \<^verbatim>\<open>decltype_\<close>, \<^verbatim>\<open>template_\<close> and \<^verbatim>\<open>trait_\<close>.
\<close>

definition type :: "ctype \<Rightarrow> cvalue" where
  "type T = Obj (type_t T) 0"

definition decltype' :: cvalue where
  "decltype' = Obj decltype_t 0"

definition template' :: "tname \<Rightarrow> cvalue" where
  "template' f = Obj (template_t f) 0"

definition metafunction :: "tname \<Rightarrow> cvalue" where
  "metafunction f = Obj (metafunction_t f) 0"

definition metafunction_class :: "ctype \<Rightarrow> cvalue" where
  "metafunction_class F = Obj (metafunction_class_t F) 0"

definition trait :: "tname \<Rightarrow> cvalue" where
  "trait f = Obj (trait_t f) 0"

definition trait' :: "tname \<Rightarrow> cvalue" where
  "trait' f = Obj (trait_t' f) 0"

text \<open>
  \<open>decltype_var v\<close> is \<^verbatim>\<open>decltype(v)\<close> for the name \<open>v\<close> of a variable: its
  declared type. Qualifiers are left out: the \<^verbatim>\<open>const\<close> that \<^verbatim>\<open>constexpr\<close>
  adds does not change what a nested lookup in a class finds.
\<close>

definition decltype_var :: "cvalue \<Rightarrow> ctype" where
  "decltype_var v = ctype_of v"

text \<open>
  \<open>value_init P T\<close> is the object \<^verbatim>\<open>T{}\<close>: a scalar is zero, a class of the
  header is empty, a class of the program is initialised as the program says;
  \<^verbatim>\<open>void\<close> and references have no such object.
\<close>

fun value_init :: "program \<Rightarrow> ctype \<Rightarrow> cvalue option" where
  "value_init P CVoid = None"
| "value_init P (LRef T) = None"
| "value_init P (RRef T) = None"
| "value_init P (Class f xs) = map_option (Obj (Class f xs)) (default_init P (Class f xs))"
| "value_init P T = Some (Obj T 0)"

section \<open>The operators\<close>

text \<open>
  \<^verbatim>\<open>constexpr _ operator+() const { return *this; }\<close> in \<^verbatim>\<open>_type<T>::_\<close>:
  callable on every value category, returns a copy of the object by value.
  \<open>None\<close>: the operand is no object of \<^verbatim>\<open>_type<T>::_\<close>.
\<close>

definition type_plus :: "expr \<Rightarrow> expr option" where
  "type_plus e =
     (case ctype_of (object e) of
        type_t T \<Rightarrow> Some \<lparr>category = Prvalue, object = Obj (type_t T) (state_of (object e))\<rparr>
      | _ \<Rightarrow> None)"

text \<open>
  The call operators take their arguments by value, so an argument is an object
  and the deduced parameter type is its type. \<open>arg_types P xs\<close> is the pack
  expansion \<^verbatim>\<open>typename xs::type...\<close>.
\<close>

definition arg_types :: "program \<Rightarrow> cvalue list \<Rightarrow> ctype list option" where
  "arg_types P xs = those (map (\<lambda>x. nested_type P (ctype_of x)) xs)"

text \<open>\<^verbatim>\<open>_decltype::operator()(T) const { return type<T>; }\<close>\<close>

fun decltype_call :: "cvalue list \<Rightarrow> cvalue option" where
  "decltype_call [x] = Some (type (ctype_of x))"
| "decltype_call _ = None"

text \<open>\<^verbatim>\<open>_template<f>::operator()(xs...) const { return type<f<typename xs::type...>>; }\<close>\<close>

definition template_call :: "program \<Rightarrow> tname \<Rightarrow> cvalue list \<Rightarrow> cvalue option" where
  "template_call P f xs =
     (case arg_types P xs of None \<Rightarrow> None
      | Some ts \<Rightarrow>
         (case template_id P f ts of None \<Rightarrow> None
          | Some C \<Rightarrow> Some (type C)))"

text \<open>
  \<^verbatim>\<open>_metafunction<f>::operator()(xs...) const
  { return type<typename f<typename xs::type...>::type>; }\<close>
\<close>

definition metafunction_call :: "program \<Rightarrow> tname \<Rightarrow> cvalue list \<Rightarrow> cvalue option" where
  "metafunction_call P f xs =
     (case arg_types P xs of None \<Rightarrow> None
      | Some ts \<Rightarrow>
         (case template_id P f ts of None \<Rightarrow> None
          | Some C \<Rightarrow>
             (case nested_type P C of None \<Rightarrow> None
              | Some R \<Rightarrow> Some (type R))))"

text \<open>
  \<^verbatim>\<open>_metafunction_class<f>::operator()(xs...) const
  { return type<typename f::template apply<typename xs::type...>::type>; }\<close>
\<close>

definition metafunction_class_call :: "program \<Rightarrow> ctype \<Rightarrow> cvalue list \<Rightarrow> cvalue option" where
  "metafunction_class_call P F xs =
     (case arg_types P xs of None \<Rightarrow> None
      | Some ts \<Rightarrow>
         (case nested_apply P F ts of None \<Rightarrow> None
          | Some C \<Rightarrow>
             (case nested_type P C of None \<Rightarrow> None
              | Some R \<Rightarrow> Some (type R))))"

text \<open>\<^verbatim>\<open>_trait<f>::operator()(xs...) const { return f<typename xs::type...>{}; }\<close>\<close>

definition trait_call :: "program \<Rightarrow> tname \<Rightarrow> cvalue list \<Rightarrow> cvalue option" where
  "trait_call P f xs =
     (case arg_types P xs of None \<Rightarrow> None
      | Some ts \<Rightarrow>
         (case template_id P f ts of None \<Rightarrow> None
          | Some C \<Rightarrow> value_init P C))"

text \<open>\<^verbatim>\<open>_trait_<f>::operator()(xs...) const { return f<xs...>{}; }\<close>\<close>

definition trait'_call :: "program \<Rightarrow> tname \<Rightarrow> cvalue list \<Rightarrow> cvalue option" where
  "trait'_call P f xs =
     (case template_id P f (map ctype_of xs) of None \<Rightarrow> None
      | Some C \<Rightarrow> value_init P C)"

text \<open>
  A call expression \<^verbatim>\<open>g(xs...)\<close> on an object \<open>g\<close> of the header selects the
  call operator of the class of \<open>g\<close>.
\<close>

fun call :: "program \<Rightarrow> cvalue \<Rightarrow> cvalue list \<Rightarrow> cvalue option" where
  "call P (Obj decltype_t s) xs = decltype_call xs"
| "call P (Obj (template_t f) s) xs = template_call P f xs"
| "call P (Obj (metafunction_t f) s) xs = metafunction_call P f xs"
| "call P (Obj (metafunction_class_t F) s) xs = metafunction_class_call P F xs"
| "call P (Obj (trait_t f) s) xs = trait_call P f xs"
| "call P (Obj (trait_t' f) s) xs = trait'_call P f xs"
| "call P _ xs = None"

text \<open>
  The classical style: \<open>apply_type P F xs\<close> is
  \<^verbatim>\<open>typename F::template apply<xs...>::type\<close>.
\<close>

definition apply_type :: "program \<Rightarrow> ctype \<Rightarrow> ctype list \<Rightarrow> ctype option" where
  "apply_type P F xs =
     (case nested_apply P F xs of None \<Rightarrow> None | Some A \<Rightarrow> nested_type P A)"

section \<open>Comparison\<close>

text \<open>
  Modelled from the spec: the header only enables the operators of Comparable for
  the data type Type (\<^verbatim>\<open>struct enabled_operators : Comparable\<close>); the comparison
  itself is defined in another header of the library. Two Types are equal if and
  only if they represent the same C++ type, both operands being objects tagged
  Type. \<open>None\<close>: an operand is no Type.
\<close>

definition equal :: "program \<Rightarrow> cvalue \<Rightarrow> cvalue \<Rightarrow> bool option" where
  "equal P t u =
     (if datatype_of (ctype_of t) = Some Type \<and> datatype_of (ctype_of u) = Some Type
      then (case nested_type P (ctype_of t) of None \<Rightarrow> None
            | Some A \<Rightarrow>
               (case nested_type P (ctype_of u) of None \<Rightarrow> None
                | Some B \<Rightarrow> Some (A = B)))
      else None)"

text \<open>
  Modelled from the spec: the equality of compile-time constants, defined with the
  constants and not in this header. Two constants are equal when the values their
  classes carry are; \<open>None\<close>: an operand's class carries no constant.
\<close>

definition constant_equal :: "program \<Rightarrow> cvalue \<Rightarrow> cvalue \<Rightarrow> bool option" where
  "constant_equal P a b =
     (case static_value P (ctype_of a) of None \<Rightarrow> None
      | Some v \<Rightarrow>
         (case static_value P (ctype_of b) of None \<Rightarrow> None
          | Some w \<Rightarrow> Some (v = w)))"

section \<open>An including program\<close>

text \<open>
  The templates of a program that the examples instantiate the header with:
  \<^verbatim>\<open>
  struct true_type  { static constexpr bool value = true;  using type = true_type; };
  struct false_type { static constexpr bool value = false; using type = false_type; };
  template <typename T, typename U> struct is_same       : false_type { };
  template <typename T>             struct is_same<T, T> : true_type  { };
  template <typename T> struct pointer_to { using type = T*; };
  struct pointer_to_class {
      template <typename T> using apply = pointer_to<T>;
  };
  \<close>
  \<^verbatim>\<open>is_same\<close> is the standard's: its instances derive from the true constant when
  the two types are the same type and from the false constant otherwise.
\<close>

definition true_type :: ctype where
  "true_type = Class ''true_type'' []"

definition false_type :: ctype where
  "false_type = Class ''false_type'' []"

fun example_template_id :: "tname \<Rightarrow> ctype list \<Rightarrow> ctype option" where
  "example_template_id f [T] = (if f = ''pointer_to'' then Some (Class f [T]) else None)"
| "example_template_id f [T, U] = (if f = ''is_same'' then Some (Class f [T, U]) else None)"
| "example_template_id f _ = None"

fun example_member_type :: "ctype \<Rightarrow> ctype option" where
  "example_member_type (Class f []) =
     (if f = ''true_type'' \<or> f = ''false_type'' then Some (Class f []) else None)"
| "example_member_type (Class f [T]) = (if f = ''pointer_to'' then Some (Pointer T) else None)"
| "example_member_type (Class f [T, U]) =
     (if f = ''is_same'' then Some (if T = U then true_type else false_type) else None)"
| "example_member_type _ = None"

fun example_member_apply :: "ctype \<Rightarrow> ctype list \<Rightarrow> ctype option" where
  "example_member_apply (Class f []) [T] =
     (if f = ''pointer_to_class'' then Some (Class ''pointer_to'' [T]) else None)"
| "example_member_apply _ _ = None"

fun example_default_init :: "ctype \<Rightarrow> int option" where
  "example_default_init (Class f []) =
     (if f = ''true_type'' \<or> f = ''false_type'' \<or> f = ''pointer_to_class'' then Some 0 else None)"
| "example_default_init (Class f [T]) = (if f = ''pointer_to'' then Some 0 else None)"
| "example_default_init (Class f [T, U]) = (if f = ''is_same'' then Some 0 else None)"
| "example_default_init _ = None"

fun example_static_value :: "ctype \<Rightarrow> int option" where
  "example_static_value (Class f []) =
     (if f = ''true_type'' then Some 1 else if f = ''false_type'' then Some 0 else None)"
| "example_static_value (Class f [T, U]) =
     (if f = ''is_same'' then Some (if T = U then 1 else 0) else None)"
| "example_static_value _ = None"

definition example_program :: program where
  "example_program =
     \<lparr>template_id = example_template_id,
      member_type = example_member_type,
      member_apply = example_member_apply,
      default_init = example_default_init,
      static_value = example_static_value\<rparr>"

section \<open>Basic facts\<close>

lemma arg_types_type: "arg_types P (map type Ts) = Some Ts"
  by (induction Ts) (simp_all add: arg_types_def type_def)

lemma type_inject: "type A = type B \<longleftrightarrow> A = B"
  by (simp add: type_def)

lemma type_t_neq: "type_t C \<noteq> C"
  by (induction C) auto

lemma value_init_ctype: "value_init P C = Some c \<Longrightarrow> ctype_of c = C"
  by (cases C) auto

lemma equal_type_type: "equal P (type A) (type B) = Some (A = B)"
  by (simp add: equal_def type_def)

text \<open>The pack expansion reads the types of the arguments only.\<close>

lemma arg_types_cong:
  "map ctype_of xs = map ctype_of ys \<Longrightarrow> arg_types P xs = arg_types P ys"
proof -
  assume h: "map ctype_of xs = map ctype_of ys"
  have "map (\<lambda>x. nested_type P (ctype_of x)) zs = map (nested_type P) (map ctype_of zs)" for zs
    by simp
  with h show ?thesis
    unfolding arg_types_def by metis
qed

lemma decltype_call_cong:
  "map ctype_of xs = map ctype_of ys \<Longrightarrow> decltype_call xs = decltype_call ys"
proof (cases xs)
  case Nil
  assume "map ctype_of xs = map ctype_of ys"
  with Nil show ?thesis by simp
next
  case (Cons x xs')
  assume h: "map ctype_of xs = map ctype_of ys"
  with Cons obtain y ys' where ys: "ys = y # ys'" "ctype_of x = ctype_of y"
      "map ctype_of xs' = map ctype_of ys'"
    by (cases ys) auto
  show ?thesis
  proof (cases xs')
    case Nil
    with ys Cons show ?thesis by simp
  next
    case (Cons a list)
    with ys obtain b l where "ys' = b # l" by (cases ys') auto
    with Cons ys \<open>xs = x # xs'\<close> show ?thesis by simp
  qed
qed

text \<open>
  On Types, the call operator of each of the three Metafunctions computes what its
  nested \<^verbatim>\<open>apply\<close> computes, and fails to compile exactly when that does.
\<close>

lemma call_metafunction_eq:
  "datatype_of (ctype_of g) = Some Metafunction \<Longrightarrow>
   call P g (map type Ts) = map_option type (apply_type P (ctype_of g) Ts)"
proof (cases g)
  case (Obj T s)
  assume "datatype_of (ctype_of g) = Some Metafunction"
  with Obj show ?thesis
    by (cases T)
       (simp_all add: template_call_def metafunction_call_def metafunction_class_call_def
          apply_type_def arg_types_type split: option.splits)
qed

section \<open>Types as objects\<close>

text \<open>
  C1. For all types \<open>A\<close> and \<open>B\<close>, the Type for \<open>A\<close> equals the Type for \<open>B\<close> if
  and only if \<open>A\<close> and \<open>B\<close> are the identical type: this holds of the comparison of
  Types, of the objects themselves, and it is what \<^verbatim>\<open>is_same<A, B>::value\<close> says.
\<close>

theorem type_equal_iff_same:
  "equal P (type A) (type B) = Some (A = B)
   \<and> (type A = type B) = (A = B)
   \<and> (static_value example_program (Class ''is_same'' [A, B]) = Some 1) = (A = B)"
  by (simp add: equal_type_type type_inject example_program_def)

text \<open>
  C9. For every type \<open>T\<close>, \<^verbatim>\<open>decltype(type<T>)::type\<close> is \<open>T\<close>: wrapping a type
  and looking it up again is the identity on types.
\<close>

theorem nested_type_of_type: "nested_type P (decltype_var (type T)) = Some T"
  by (simp add: decltype_var_def type_def)

section \<open>Metafunctions\<close>

text \<open>
  C2. Every Metafunction \<open>g\<close> of the header (an object of \<^verbatim>\<open>_template<f>\<close>,
  \<^verbatim>\<open>_metafunction<f>\<close> or \<^verbatim>\<open>_metafunction_class<f>\<close>) satisfies
  \<^verbatim>\<open>g(type<T1>, ..., type<Tn>) == type<decltype(g)::apply<T1, ..., Tn>::type>\<close>:
  where the right-hand side names a type \<open>R\<close>, the call returns the Type of \<open>R\<close>,
  which the comparison of Types finds equal to it.
\<close>

theorem metafunction_law:
  assumes "datatype_of (decltype_var g) = Some Metafunction"
    and "apply_type P (decltype_var g) Ts = Some R"
  shows "call P g (map type Ts) = Some (type R)
     \<and> (case call P g (map type Ts) of None \<Rightarrow> None | Some r \<Rightarrow> equal P r (type R)) = Some True"
  using assms by (simp add: decltype_var_def call_metafunction_eq equal_type_type)

theorem metafunction_law_witness:
  "datatype_of (decltype_var (metafunction_class (Class ''pointer_to_class'' []))) = Some Metafunction
   \<and> apply_type example_program (decltype_var (metafunction_class (Class ''pointer_to_class'' []))) [CInt]
       = Some (Pointer CInt)
   \<and> call example_program (metafunction_class (Class ''pointer_to_class'' [])) (map type [CInt])
       = Some (type (Pointer CInt))"
  using metafunction_law [of "metafunction_class (Class ''pointer_to_class'' [])" example_program "[CInt]" "Pointer CInt"]
  by (simp add: decltype_var_def metafunction_class_def apply_type_def example_program_def)

text \<open>
  C3. For a template \<open>f\<close> of type parameters and types \<open>x1..xn\<close> for which
  \<^verbatim>\<open>f<x1, ..., xn>\<close> names a type \<open>C\<close>, calling \<^verbatim>\<open>template_<f>\<close> on the Types of
  \<open>x1..xn\<close> returns exactly the Type of \<open>C\<close>;
  \<^verbatim>\<open>decltype(template_<f>)::apply<x1, ..., xn>::type\<close> is \<open>C\<close> as well, and the
  Type of that is equal to the result of the call.
\<close>

theorem template_call_type:
  assumes "template_id P f xs = Some C"
  shows "call P (template' f) (map type xs) = Some (type C)
     \<and> apply_type P (decltype_var (template' f)) xs = Some C
     \<and> (case call P (template' f) (map type xs) of None \<Rightarrow> None
        | Some r \<Rightarrow> (case apply_type P (decltype_var (template' f)) xs of None \<Rightarrow> None
            | Some A \<Rightarrow> equal P r (type A))) = Some True"
  using assms
  by (simp add: template'_def template_call_def arg_types_type apply_type_def decltype_var_def
      equal_type_type)

theorem template_call_type_witness:
  "template_id example_program ''is_same'' [CInt, CDouble] = Some (Class ''is_same'' [CInt, CDouble])
   \<and> call example_program (template' ''is_same'') [type CInt, type CDouble]
       = Some (type (Class ''is_same'' [CInt, CDouble]))
   \<and> apply_type example_program (decltype_var (template' ''is_same'')) [CInt, CDouble]
       = Some (Class ''is_same'' [CInt, CDouble])"
  using template_call_type [of example_program "''is_same''" "[CInt, CDouble]" "Class ''is_same'' [CInt, CDouble]"]
  by (simp add: example_program_def)

text \<open>
  C4. For a metafunction \<open>f\<close> in the style of the MPL and types \<open>x1..xn\<close> for
  which \<^verbatim>\<open>f<x1, ..., xn>\<close> names a class \<open>C\<close> with a nested \<^verbatim>\<open>type\<close> \<open>R\<close>,
  calling \<^verbatim>\<open>metafunction<f>\<close> on the Types of \<open>x1..xn\<close> returns the Type of \<open>R\<close>,
  where \<^verbatim>\<open>template_<f>\<close> returns the Type of \<open>C\<close>: one nested lookup more.
\<close>

theorem metafunction_call_type:
  assumes "template_id P f xs = Some C" and "nested_type P C = Some R"
  shows "call P (metafunction f) (map type xs) = Some (type R)
     \<and> call P (template' f) (map type xs) = Some (type C)"
  using assms
  by (simp add: metafunction_def template'_def metafunction_call_def template_call_def arg_types_type)

theorem metafunction_call_type_witness:
  "template_id example_program ''pointer_to'' [CChar] = Some (Class ''pointer_to'' [CChar])
   \<and> nested_type example_program (Class ''pointer_to'' [CChar]) = Some (Pointer CChar)
   \<and> call example_program (metafunction ''pointer_to'') [type CChar] = Some (type (Pointer CChar))
   \<and> call example_program (template' ''pointer_to'') [type CChar]
       = Some (type (Class ''pointer_to'' [CChar]))"
  using metafunction_call_type [of example_program "''pointer_to''" "[CChar]" "Class ''pointer_to'' [CChar]" "Pointer CChar"]
  by (simp add: example_program_def)

text \<open>
  C5. For a metafunction class \<open>F\<close> and types \<open>x1..xn\<close> for which
  \<^verbatim>\<open>F::apply<x1, ..., xn>\<close> names a class \<open>A\<close> with a nested \<^verbatim>\<open>type\<close> \<open>R\<close>,
  calling \<^verbatim>\<open>metafunction_class<F>\<close> on the Types of \<open>x1..xn\<close> returns the Type
  of \<open>R\<close>: \<open>F\<close> is applied through its member \<^verbatim>\<open>apply\<close>, not as a template.
\<close>

theorem metafunction_class_call_type:
  assumes "nested_apply P F xs = Some A" and "nested_type P A = Some R"
  shows "call P (metafunction_class F) (map type xs) = Some (type R)"
  using assms
  by (simp add: metafunction_class_def metafunction_class_call_def arg_types_type)

theorem metafunction_class_call_type_witness:
  "nested_apply example_program (Class ''pointer_to_class'' []) [CDouble] = Some (Class ''pointer_to'' [CDouble])
   \<and> nested_type example_program (Class ''pointer_to'' [CDouble]) = Some (Pointer CDouble)
   \<and> call example_program (metafunction_class (Class ''pointer_to_class'' [])) [type CDouble]
       = Some (type (Pointer CDouble))"
  using metafunction_class_call_type [of example_program "Class ''pointer_to_class'' []" "[CDouble]"
      "Class ''pointer_to'' [CDouble]" "Pointer CDouble"]
  by (simp add: example_program_def)

text \<open>
  C8 as stated fails. The Type that \<^verbatim>\<open>template_<is_same>\<close> returns on the Types of
  \<^verbatim>\<open>int\<close> and \<^verbatim>\<open>int\<close> is not the Type of the true constant, and the comparison of
  Types says so; nor is the one it returns on \<^verbatim>\<open>int\<close> and \<^verbatim>\<open>double\<close> the Type
  of the false constant.
\<close>

theorem template_is_same_counterexample:
  "call example_program (template' ''is_same'') [type CInt, type CInt] \<noteq> Some (type true_type)
   \<and> (case call example_program (template' ''is_same'') [type CInt, type CInt] of
        None \<Rightarrow> None | Some r \<Rightarrow> equal example_program r (type true_type)) = Some False
   \<and> call example_program (template' ''is_same'') [type CInt, type CDouble] \<noteq> Some (type false_type)
   \<and> (case call example_program (template' ''is_same'') [type CInt, type CDouble] of
        None \<Rightarrow> None | Some r \<Rightarrow> equal example_program r (type false_type)) = Some False"
  by (simp add: template'_def template_call_def arg_types_def type_def example_program_def
      true_type_def false_type_def equal_def)

text \<open>
  C8, amended. Calling \<^verbatim>\<open>template_<is_same>\<close> on the Types of \<^verbatim>\<open>int\<close> and
  \<^verbatim>\<open>int\<close> returns the Type of the class \<^verbatim>\<open>is_same<int, int>\<close>, whose nested
  \<^verbatim>\<open>type\<close> is the true constant and whose \<^verbatim>\<open>value\<close> is true; on the Types of
  \<^verbatim>\<open>int\<close> and \<^verbatim>\<open>double\<close> it returns the Type of \<^verbatim>\<open>is_same<int, double>\<close>,
  whose nested \<^verbatim>\<open>type\<close> is the false constant and whose \<^verbatim>\<open>value\<close> is false.
  The Types of the two constants themselves are what \<^verbatim>\<open>metafunction<is_same>\<close>
  returns.
\<close>

theorem template_is_same_example:
  "call example_program (template' ''is_same'') [type CInt, type CInt]
     = Some (type (Class ''is_same'' [CInt, CInt]))
   \<and> nested_type example_program (Class ''is_same'' [CInt, CInt]) = Some true_type
   \<and> static_value example_program (Class ''is_same'' [CInt, CInt]) = Some 1
   \<and> call example_program (template' ''is_same'') [type CInt, type CDouble]
     = Some (type (Class ''is_same'' [CInt, CDouble]))
   \<and> nested_type example_program (Class ''is_same'' [CInt, CDouble]) = Some false_type
   \<and> static_value example_program (Class ''is_same'' [CInt, CDouble]) = Some 0
   \<and> call example_program (metafunction ''is_same'') [type CInt, type CInt] = Some (type true_type)
   \<and> call example_program (metafunction ''is_same'') [type CInt, type CDouble]
     = Some (type false_type)"
  by (simp add: template'_def template_call_def metafunction_def metafunction_call_def
      arg_types_def type_def example_program_def)

section \<open>Traits\<close>

text \<open>
  C6. For a template \<open>f\<close> and types \<open>x1..xn\<close> for which \<^verbatim>\<open>f<x1, ..., xn>\<close>
  names a class \<open>C\<close> of compile-time constants with the object \<^verbatim>\<open>C{}\<close> \<open>c\<close>,
  calling \<^verbatim>\<open>trait<f>\<close> on the Types of \<open>x1..xn\<close> returns \<open>c\<close>, equal to \<open>c\<close>
  under the equality of constants: an object of \<open>C\<close> itself and not the Type of
  \<open>C\<close>.
\<close>

theorem trait_call_value:
  assumes "template_id P f xs = Some C" and "value_init P C = Some c"
    and "static_value P C = Some k"
  shows "call P (trait f) (map type xs) = Some c
     \<and> (case call P (trait f) (map type xs) of None \<Rightarrow> None | Some r \<Rightarrow> constant_equal P r c)
         = Some True
     \<and> ctype_of c = C \<and> c \<noteq> type C"
proof -
  have t: "ctype_of c = C" using assms(2) by (rule value_init_ctype)
  have "ctype_of (type C) \<noteq> ctype_of c" using t type_t_neq [of C] by (simp add: type_def)
  then have n: "c \<noteq> type C" by auto
  have "call P (trait f) (map type xs) = Some c"
    using assms by (simp add: trait_def trait_call_def arg_types_type)
  with t n assms(3) show ?thesis by (simp add: constant_equal_def)
qed

theorem trait_call_value_witness:
  "template_id example_program ''is_same'' [CInt, CInt] = Some (Class ''is_same'' [CInt, CInt])
   \<and> value_init example_program (Class ''is_same'' [CInt, CInt]) = Some (Obj (Class ''is_same'' [CInt, CInt]) 0)
   \<and> static_value example_program (Class ''is_same'' [CInt, CInt]) = Some 1
   \<and> call example_program (trait ''is_same'') [type CInt, type CInt] = Some (Obj (Class ''is_same'' [CInt, CInt]) 0)"
  using trait_call_value [of example_program "''is_same''" "[CInt, CInt]" "Class ''is_same'' [CInt, CInt]"
     "Obj (Class ''is_same'' [CInt, CInt]) 0" 1]
  by (simp add: example_program_def)

section \<open>Unary plus\<close>

text \<open>
  C7. For every type \<open>T\<close>, unary \<open>+\<close> on an expression of any value category that
  denotes an object of \<^verbatim>\<open>_type<T>::_\<close> gives a prvalue of the same object; applied
  to its own result it gives that result again, and the type of the result is
  \<^verbatim>\<open>_type<T>::_\<close>, whose nested \<^verbatim>\<open>type\<close> is \<open>T\<close>.
\<close>

theorem type_plus_idempotent:
  assumes "ctype_of (object e) = type_t T"
  shows "type_plus e = Some \<lparr>category = Prvalue, object = object e\<rparr>
     \<and> type_plus \<lparr>category = Prvalue, object = object e\<rparr>
         = Some \<lparr>category = Prvalue, object = object e\<rparr>
     \<and> decltype_expr \<lparr>category = Prvalue, object = object e\<rparr> = type_t T
     \<and> nested_type P (decltype_expr \<lparr>category = Prvalue, object = object e\<rparr>) = Some T"
  using assms by (cases "object e") (simp add: type_plus_def decltype_expr_def)

theorem type_plus_idempotent_witness:
  "ctype_of (object \<lparr>category = Lvalue, object = type CInt\<rparr>) = type_t CInt
   \<and> nested_type example_program (decltype_expr \<lparr>category = Lvalue, object = type CInt\<rparr>) = None
   \<and> type_plus \<lparr>category = Lvalue, object = type CInt\<rparr> = Some \<lparr>category = Prvalue, object = type CInt\<rparr>
   \<and> nested_type example_program (decltype_expr \<lparr>category = Prvalue, object = type CInt\<rparr>) = Some CInt"
  using type_plus_idempotent [of "\<lparr>category = Lvalue, object = type CInt\<rparr>" CInt example_program]
  by (simp add: type_def decltype_expr_def)

section \<open>The calls read types only\<close>

text \<open>
  C10. The call operators of \<^verbatim>\<open>template_<f>\<close>, \<^verbatim>\<open>metafunction<f>\<close>,
  \<^verbatim>\<open>metafunction_class<F>\<close>, \<^verbatim>\<open>trait<f>\<close>, \<^verbatim>\<open>trait_<f>\<close> and
  \<^verbatim>\<open>decltype_\<close> ignore the states of their arguments: on two argument lists
  whose elements have the same types one by one, the two calls return the same.
\<close>

theorem calls_ignore_argument_values:
  assumes "map ctype_of xs = map ctype_of ys"
  shows "call P (template' f) xs = call P (template' f) ys
     \<and> call P (metafunction f) xs = call P (metafunction f) ys
     \<and> call P (metafunction_class F) xs = call P (metafunction_class F) ys
     \<and> call P (trait f) xs = call P (trait f) ys
     \<and> call P (trait' f) xs = call P (trait' f) ys
     \<and> call P decltype' xs = call P decltype' ys"
  using assms arg_types_cong [OF assms, of P] decltype_call_cong [OF assms]
  by (simp add: template'_def metafunction_def metafunction_class_def trait_def trait'_def
      decltype'_def template_call_def metafunction_call_def metafunction_class_call_def
      trait_call_def trait'_call_def)

theorem calls_ignore_argument_values_witness:
  "map ctype_of [Obj (type_t CInt) 7] = map ctype_of [type CInt]
   \<and> call example_program (template' ''pointer_to'') [Obj (type_t CInt) 7]
       = Some (type (Class ''pointer_to'' [CInt]))
   \<and> call example_program (template' ''pointer_to'') [type CInt]
       = Some (type (Class ''pointer_to'' [CInt]))
   \<and> call example_program (metafunction ''pointer_to'') [Obj (type_t CInt) 7]
       = call example_program (metafunction ''pointer_to'') [type CInt]
   \<and> call example_program (metafunction_class (Class ''pointer_to_class'' [])) [Obj (type_t CInt) 7]
       = call example_program (metafunction_class (Class ''pointer_to_class'' [])) [type CInt]
   \<and> call example_program (trait ''pointer_to'') [Obj (type_t CInt) 7]
       = call example_program (trait ''pointer_to'') [type CInt]
   \<and> call example_program (trait' ''pointer_to'') [Obj (type_t CInt) 7]
       = call example_program (trait' ''pointer_to'') [type CInt]
   \<and> call example_program decltype' [Obj (type_t CInt) 7] = Some (type (type_t CInt))
   \<and> call example_program decltype' [type CInt] = Some (type (type_t CInt))"
  using calls_ignore_argument_values [of "[Obj (type_t CInt) 7]" "[type CInt]" example_program
      "''pointer_to''" "Class ''pointer_to_class'' []"]
  by (simp add: type_def template'_def decltype'_def template_call_def arg_types_def
      example_program_def)

end
